theory Spec2Isabelle
  imports Complex_Main "HOL-Library.Multiset"
begin

section \<open>Edit distance between generation orders (voi/core/inspect\_order.py)\<close>

text \<open>
  \<^verbatim>\<open>levenshtein(seq1, seq2)\<close> fills a \<open>(len(seq1)+1) \<times> (len(seq2)+1)\<close> table with three
  loops and returns its last cell. The table is a list of rows; the cells hold
  small whole numbers (the source stores them in a float array, where they are exact), so
  they are modelled as natural numbers. Every index the loops read is inside the table
  and inside the two sequences.
\<close>




subsection \<open>What the distance is measured against\<close>







subsection \<open>The loops fill the table with prefix distances\<close>

















subsection \<open>Prefix distances are edit distances, and edit distances are minimal\<close>




























section \<open>Python values, errors and tensors\<close>

text \<open>
  Every \<^verbatim>\<open>raise\<close> of the source, and every exception of an operation it calls, is a
  value: a function that can fail returns \<open>py_error + 'a\<close>, with \<open>Inl\<close> the exception.
  \<open>IncompatibleInputs\<close> is the error with which a \<^verbatim>\<open>tf.function\<close> refuses arguments
  that do not match its \<^verbatim>\<open>input_signature\<close>.
\<close>

datatype py_error =
    KeyError string
  | UnboundLocalError string
  | NameError string
  | NotImplementedError
  | TypeError
  | ValueError
  | IndexError
  | NotFoundError
  | IncompatibleInputs

definition and_then :: "py_error + 'a \<Rightarrow> ('a \<Rightarrow> py_error + 'b) \<Rightarrow> py_error + 'b" where
  "and_then r f = (case r of Inl e \<Rightarrow> Inl e | Inr x \<Rightarrow> f x)"

text \<open>
  A tensor is a scalar or a list of tensors along its first axis. Values of type
  \<^verbatim>\<open>float32\<close> are only copied and compared with zero by the functions below; they are
  modelled as real numbers. A slot of a model-input list holds \<^verbatim>\<open>None\<close>, a tensor, or
  another Python value (a tuple).
\<close>

datatype dtype = float32 | int32 | tf_string | tf_bool

datatype scalar = FloatS real | IntS int | StrS string | BoolS bool

datatype tensor = Scalar scalar | Tensor "tensor list"

datatype pyval = PyNone | PyTensor tensor | PyTuple "pyval list"

fun dtype_of :: "scalar \<Rightarrow> dtype" where
  "dtype_of (FloatS _) = float32"
| "dtype_of (IntS _) = int32"
| "dtype_of (StrS _) = tf_string"
| "dtype_of (BoolS _) = tf_bool"

text \<open>
  \<^verbatim>\<open>tf.TensorSpec(shape=[None, ..., None], dtype=d)\<close> with \<open>r\<close> unknown dimensions: rank
  \<open>r\<close> and element type \<open>d\<close>.
\<close>

fun has_spec :: "nat \<Rightarrow> dtype \<Rightarrow> tensor \<Rightarrow> bool" where
  "has_spec r d (Scalar v) = (r = 0 \<and> dtype_of v = d)"
| "has_spec r d (Tensor rows) = (0 < r \<and> list_all (has_spec (r - 1) d) rows)"

text \<open>
  A batch is a dictionary from feature names to tensors, in insertion order.
  \<^verbatim>\<open>coco_batch_spec\<close> and \<^verbatim>\<open>wmt_batch_spec\<close> are the two layouts the module declares.
\<close>

type_synonym batch = "(string \<times> tensor) list"
type_synonym batch_spec = "(string \<times> nat \<times> dtype) list"

definition coco_batch_spec :: batch_spec where
  "coco_batch_spec =
    [(''image_indicators'', 2, float32),
     (''image_path'', 1, tf_string),
     (''tags'', 2, int32),
     (''words'', 2, int32),
     (''token_indicators'', 2, float32),
     (''global_features'', 2, float32),
     (''scores'', 2, float32),
     (''boxes'', 3, float32),
     (''labels'', 2, int32),
     (''boxes_features'', 3, float32)]"

definition wmt_batch_spec :: batch_spec where
  "wmt_batch_spec =
    [(''encoder_words'', 2, int32),
     (''encoder_token_indicators'', 2, float32),
     (''decoder_words'', 2, int32),
     (''decoder_token_indicators'', 2, float32)]"

definition matches_spec :: "batch_spec \<Rightarrow> batch \<Rightarrow> bool" where
  "matches_spec spec batch \<longleftrightarrow>
     distinct (map fst batch) \<and>
     set (map fst batch) = set (map fst spec) \<and>
     list_all (\<lambda>(k, r, d). case map_of batch k of
                                Some t \<Rightarrow> has_spec r d t
                              | None \<Rightarrow> False) spec"

text \<open>
  \<^verbatim>\<open>batch[k]\<close> in plain Python raises \<^verbatim>\<open>KeyError\<close> on a missing key (\<open>lookup\<close>); inside
  a \<^verbatim>\<open>tf.function\<close> whose signature has been checked the key is there (\<open>item\<close>).
\<close>

definition lookup :: "batch \<Rightarrow> string \<Rightarrow> py_error + tensor" where
  "lookup batch k = (case map_of batch k of Some t \<Rightarrow> Inr t | None \<Rightarrow> Inl (KeyError k))"

definition item :: "batch \<Rightarrow> string \<Rightarrow> tensor" where
  "item batch k = the (map_of batch k)"

text \<open>
  The tensor operations the preparation functions use: \<^verbatim>\<open>t[:, :-1]\<close>, \<^verbatim>\<open>t[:, 1:]\<close>,
  \<^verbatim>\<open>tf.shape(t)[0]\<close>, \<^verbatim>\<open>tf.shape(t)[1]\<close> (read off the first row), \<^verbatim>\<open>tf.greater(t, 0)\<close>,
  \<^verbatim>\<open>tf.equal\<close>, \<^verbatim>\<open>tf.logical_or\<close>, \<^verbatim>\<open>tf.logical_not\<close>, \<^verbatim>\<open>tf.zeros([n])\<close> and
  \<^verbatim>\<open>tf.zeros([n, k])\<close>.
\<close>

fun inner :: "(tensor list \<Rightarrow> tensor list) \<Rightarrow> tensor \<Rightarrow> tensor" where
  "inner f (Tensor xs) = Tensor (f xs)"
| "inner f (Scalar v) = Scalar v"

definition all_but_last_column :: "tensor \<Rightarrow> tensor" where
  "all_but_last_column t = inner (map (inner butlast)) t"

definition all_but_first_column :: "tensor \<Rightarrow> tensor" where
  "all_but_first_column t = inner (map (inner tl)) t"

fun dim0 :: "tensor \<Rightarrow> nat" where
  "dim0 (Tensor rows) = length rows"
| "dim0 (Scalar v) = 0"

fun dim1 :: "tensor \<Rightarrow> nat" where
  "dim1 (Tensor (row # rows)) = dim0 row"
| "dim1 t = 0"

fun rows_of :: "tensor \<Rightarrow> tensor list" where
  "rows_of (Tensor rows) = rows"
| "rows_of (Scalar v) = []"

fun elementwise :: "(scalar \<Rightarrow> scalar) \<Rightarrow> tensor \<Rightarrow> tensor" where
  "elementwise f (Scalar v) = Scalar (f v)"
| "elementwise f (Tensor xs) = Tensor (map (elementwise f) xs)"

fun greater_0 :: "scalar \<Rightarrow> scalar" where
  "greater_0 (FloatS x) = BoolS (x > 0)"
| "greater_0 (IntS i) = BoolS (i > 0)"
| "greater_0 v = v"

definition tf_greater_0 :: "tensor \<Rightarrow> tensor" where
  "tf_greater_0 t = elementwise greater_0 t"

fun start_end_or_pad :: "scalar \<Rightarrow> scalar" where
  "start_end_or_pad (IntS w) = BoolS (w = 0 \<or> (w = 2 \<or> w = 3))"
| "start_end_or_pad v = v"

fun logical_not :: "scalar \<Rightarrow> scalar" where
  "logical_not (BoolS b) = BoolS (\<not> b)"
| "logical_not v = v"

definition tf_zeros_1 :: "nat \<Rightarrow> tensor" where
  "tf_zeros_1 n = Tensor (replicate n (Scalar (FloatS 0)))"

definition tf_zeros_2 :: "nat \<Rightarrow> nat \<Rightarrow> tensor" where
  "tf_zeros_2 n k = Tensor (replicate n (Tensor (replicate k (Scalar (FloatS 0)))))"

text \<open>
  \<^verbatim>\<open>tf.repeat(t, n, axis=0)\<close> with a scalar count: every row \<open>n\<close> times, one row after the
  other. TensorFlow first turns a scalar \<open>t\<close> into a vector of one element.
\<close>

fun tf_repeat :: "tensor \<Rightarrow> nat \<Rightarrow> tensor" where
  "tf_repeat (Tensor rows) n = Tensor (concat (map (replicate n) rows))"
| "tf_repeat (Scalar v) n = Tensor (replicate n (Scalar v))"

section \<open>Preparing batches for the decoder (voi/core/inspect\_order.py)\<close>

text \<open>
  \<^verbatim>\<open>repeat_tensor_list(lst, n)\<close>: the loop over the indices of the list, replacing in
  place each entry that is a tensor.
\<close>

definition repeat_entry :: "nat \<Rightarrow> nat \<Rightarrow> pyval list \<Rightarrow> pyval list" where
  "repeat_entry n i lst =
     (case lst ! i of
        PyTensor t \<Rightarrow> lst[i := PyTensor (tf_repeat t n)]
      | _ \<Rightarrow> lst)"

definition repeat_tensor_list :: "pyval list \<Rightarrow> nat \<Rightarrow> pyval list" where
  "repeat_tensor_list lst n = fold (repeat_entry n) [0..<length lst] lst"

text \<open>
  \<^verbatim>\<open>prepare_batch_for_lm_captioning\<close> and \<^verbatim>\<open>prepare_batch_for_lm_wmt\<close>. The list handed
  to \<^verbatim>\<open>repeat_tensor_list\<close> is named on its own (\<open>lm_captioning_inputs\<close>,
  \<open>lm_wmt_inputs\<close>). \<open>action_refinement\<close> is the number of permutations to sample, a
  repeat count.
\<close>

definition lm_captioning_inputs :: "batch \<Rightarrow> pyval list" where
  "lm_captioning_inputs batch =
    (let image_ind = item batch ''image_indicators'';
         boxes_features = item batch ''boxes_features'';
         boxes = item batch ''boxes'';
         detections = item batch ''labels'';
         words = item batch ''words'';
         mask = item batch ''token_indicators'';
         batch_size = dim0 mask
     in [PyTensor (all_but_last_column words), PyTensor (tf_zeros_1 batch_size),
         PyTensor (tf_greater_0 (all_but_last_column mask)), PyTensor (tf_greater_0 image_ind),
         PyTensor (all_but_first_column words), PyNone, PyNone, PyNone, PyNone, PyNone, PyNone,
         PyTensor (tf_zeros_1 batch_size),
         PyTensor (tf_zeros_1 batch_size), PyTensor detections, PyTensor boxes_features, PyTensor boxes])"

definition prepare_batch_for_lm_captioning ::
    "nat \<Rightarrow> batch \<Rightarrow> py_error + pyval list" where
  "prepare_batch_for_lm_captioning action_refinement batch =
     (if matches_spec coco_batch_spec batch
      then Inr (repeat_tensor_list (lm_captioning_inputs batch) action_refinement)
      else Inl IncompatibleInputs)"

definition lm_wmt_inputs :: "batch \<Rightarrow> pyval list" where
  "lm_wmt_inputs batch =
    (let encoder_words = item batch ''encoder_words'';
         encoder_token_ind = item batch ''encoder_token_indicators'';
         words = item batch ''decoder_words'';
         mask = item batch ''decoder_token_indicators'';
         batch_size = dim0 mask
     in [PyTensor (all_but_last_column words), PyTensor encoder_words,
         PyTensor (tf_greater_0 (all_but_last_column mask)), PyTensor (tf_greater_0 encoder_token_ind),
         PyTensor (all_but_first_column words), PyNone, PyNone, PyNone, PyNone, PyNone, PyNone,
         PyTensor (tf_zeros_1 batch_size),
         PyTensor (tf_zeros_1 batch_size), PyTensor (tf_zeros_1 batch_size),
         PyTensor (tf_zeros_1 batch_size), PyTensor (tf_zeros_2 batch_size 1)])"

definition prepare_batch_for_lm_wmt ::
    "nat \<Rightarrow> batch \<Rightarrow> py_error + pyval list" where
  "prepare_batch_for_lm_wmt action_refinement batch =
     (if matches_spec wmt_batch_spec batch
      then Inr (repeat_tensor_list (lm_wmt_inputs batch) action_refinement)
      else Inl IncompatibleInputs)"

text \<open>
  What claim C9 says of an output list, entry by entry: a tensor has become
  \<^verbatim>\<open>tf.repeat\<close> of itself, so its first dimension is \<open>n\<close> times as long and its row
  \<open>k\<close> is the input's row \<open>k div n\<close>; anything else is unchanged.
\<close>

definition each_tensor_repeated :: "nat \<Rightarrow> pyval list \<Rightarrow> pyval list \<Rightarrow> bool" where
  "each_tensor_repeated n ins outs \<longleftrightarrow>
     length outs = length ins \<and>
     (\<forall>i < length ins.
        case ins ! i of
          PyTensor t \<Rightarrow>
            outs ! i = PyTensor (tf_repeat t n) \<and>
            dim0 (tf_repeat t n) = n * dim0 t \<and>
            (\<forall>k < n * dim0 t. rows_of (tf_repeat t n) ! k = rows_of t ! (k div n))
        | v \<Rightarrow> outs ! i = v)"

subsection \<open>Example batches\<close>

definition ints :: "int list list \<Rightarrow> tensor" where
  "ints rows = Tensor (map (\<lambda>r. Tensor (map (\<lambda>i. Scalar (IntS i)) r)) rows)"

definition floats :: "real list list \<Rightarrow> tensor" where
  "floats rows = Tensor (map (\<lambda>r. Tensor (map (\<lambda>x. Scalar (FloatS x)) r)) rows)"

definition floats3 :: "real list list list \<Rightarrow> tensor" where
  "floats3 ms = Tensor (map floats ms)"

definition example_wmt_batch :: batch where
  "example_wmt_batch =
    [(''encoder_words'', ints [[2, 7, 3], [2, 3, 0]]),
     (''encoder_token_indicators'', floats [[1, 1, 1], [1, 1, 0]]),
     (''decoder_words'', ints [[2, 5, 6, 3], [2, 9, 3, 0]]),
     (''decoder_token_indicators'', floats [[1, 1, 1, 1], [1, 1, 1, 0]])]"

definition example_coco_batch :: batch where
  "example_coco_batch =
    [(''image_indicators'', floats [[1, 0]]),
     (''image_path'', Tensor [Scalar (StrS ''a.jpg'')]),
     (''tags'', ints [[4, 5]]),
     (''words'', ints [[2, 5, 3]]),
     (''token_indicators'', floats [[1, 1, 1]]),
     (''global_features'', floats [[0]]),
     (''scores'', floats [[1, 0]]),
     (''boxes'', floats3 [[[0, 0, 1, 1], [0, 0, 0, 0]]]),
     (''labels'', ints [[7, 0]]),
     (''boxes_features'', floats3 [[[1], [0]]])]"

subsection \<open>The loop is a map; repetition multiplies the batch dimension\<close>

definition repeat_value :: "nat \<Rightarrow> pyval \<Rightarrow> pyval" where
  "repeat_value n v = (case v of PyTensor t \<Rightarrow> PyTensor (tf_repeat t n) | _ \<Rightarrow> v)"

lemma repeat_entry_prefix:
  assumes "k < length lst"
  shows "repeat_entry n k (map f (take k lst) @ drop k lst) =
         map f (take k lst) @ repeat_value n (lst ! k) # drop (Suc k) lst"
proof -
  have d: "drop k lst = lst ! k # drop (Suc k) lst"
    using assms by (simp add: Cons_nth_drop_Suc)
  have len: "length (map f (take k lst)) = k"
    using assms by simp
  have nth: "(map f (take k lst) @ drop k lst) ! k = lst ! k"
    using len d by (metis nth_append_length)
  have upd: "\<And>v. (map f (take k lst) @ drop k lst)[k := v] =
      map f (take k lst) @ v # drop (Suc k) lst"
    using len d by (metis list_update_length)
  show ?thesis
  proof (cases "lst ! k")
    case PyNone
    then show ?thesis
      unfolding repeat_entry_def nth using d by (simp add: repeat_value_def)
  next
    case (PyTensor t)
    then show ?thesis
      unfolding repeat_entry_def nth by (simp add: upd repeat_value_def)
  next
    case (PyTuple vs)
    then show ?thesis
      unfolding repeat_entry_def nth using d by (simp add: repeat_value_def)
  qed
qed

lemma repeat_tensor_list_take:
  "k \<le> length lst \<Longrightarrow>
   fold (repeat_entry n) [0..<k] lst = map (repeat_value n) (take k lst) @ drop k lst"
proof (induction k)
  case 0
  show ?case by simp
next
  case (Suc k)
  then have k: "k < length lst" by simp
  have "fold (repeat_entry n) [0..<Suc k] lst =
      repeat_entry n k (map (repeat_value n) (take k lst) @ drop k lst)"
    using Suc by simp
  also have "\<dots> = map (repeat_value n) (take k lst) @ repeat_value n (lst ! k) # drop (Suc k) lst"
    by (rule repeat_entry_prefix [OF k])
  also have "\<dots> = map (repeat_value n) (take (Suc k) lst) @ drop (Suc k) lst"
    using k by (simp add: take_Suc_conv_app_nth)
  finally show ?case .
qed

lemma repeat_tensor_list_map: "repeat_tensor_list lst n = map (repeat_value n) lst"
  by (simp add: repeat_tensor_list_def repeat_tensor_list_take)

lemma concat_replicate_nth:
  "k < n * length rows \<Longrightarrow> concat (map (replicate n) rows) ! k = rows ! (k div n)"
proof (induction rows arbitrary: k)
  case Nil
  then show ?case by simp
next
  case (Cons x xs)
  show ?case
  proof (cases "k < n")
    case True
    then show ?thesis by (simp add: nth_append)
  next
    case False
    then have "n \<le> k" by simp
    moreover have "0 < n" using Cons.prems by (cases n) simp_all
    ultimately have d: "k div n = Suc ((k - n) div n)"
      by (simp add: le_div_geq)
    have "k - n < n * length xs" using Cons.prems False by simp
    then have "concat (map (replicate n) xs) ! (k - n) = xs ! ((k - n) div n)"
      by (rule Cons.IH)
    then show ?thesis using False d by (simp add: nth_append)
  qed
qed

lemma tf_repeat_rows:
  "dim0 (tf_repeat (Tensor rows) n) = n * dim0 (Tensor rows) \<and>
   (\<forall>k < n * dim0 (Tensor rows).
      rows_of (tf_repeat (Tensor rows) n) ! k = rows_of (Tensor rows) ! (k div n))"
  by (simp add: length_concat comp_def sum_list_triv concat_replicate_nth)

definition all_batched :: "pyval list \<Rightarrow> bool" where
  "all_batched ins \<longleftrightarrow> list_all (\<lambda>v. case v of PyTensor (Scalar x) \<Rightarrow> False | _ \<Rightarrow> True) ins"

lemma each_tensor_repeated_map:
  assumes "all_batched ins"
  shows "each_tensor_repeated n ins (map (repeat_value n) ins)"
  unfolding each_tensor_repeated_def
proof (intro conjI allI impI)
  show "length (map (repeat_value n) ins) = length ins" by simp
next
  fix i assume i: "i < length ins"
  have ok: "case ins ! i of PyTensor (Scalar x) \<Rightarrow> False | _ \<Rightarrow> True"
    using assms i by (simp add: all_batched_def list_all_length)
  show "case ins ! i of
          PyTensor t \<Rightarrow>
            map (repeat_value n) ins ! i = PyTensor (tf_repeat t n) \<and>
            dim0 (tf_repeat t n) = n * dim0 t \<and>
            (\<forall>k < n * dim0 t. rows_of (tf_repeat t n) ! k = rows_of t ! (k div n))
        | v \<Rightarrow> map (repeat_value n) ins ! i = v"
  proof (cases "ins ! i")
    case PyNone
    then show ?thesis using i by (simp add: repeat_value_def)
  next
    case (PyTuple vs)
    then show ?thesis using i by (simp add: repeat_value_def)
  next
    case (PyTensor t)
    then obtain rows where t: "t = Tensor rows"
      using ok by (cases t) simp_all
    show ?thesis
      using i PyTensor tf_repeat_rows [of rows n] unfolding t
      by (simp add: repeat_value_def)
  qed
qed

lemma has_spec_rows: "has_spec r d t \<Longrightarrow> 0 < r \<Longrightarrow> \<exists>rows. t = Tensor rows"
  by (cases t) simp_all

lemma matches_spec_item:
  assumes "matches_spec spec b" and "(k, r, d) \<in> set spec"
  shows "has_spec r d (item b k)"
proof -
  have "list_all (\<lambda>(k, r, d). case map_of b k of Some t \<Rightarrow> has_spec r d t | None \<Rightarrow> False) spec"
    using assms(1) by (simp add: matches_spec_def)
  then have "case map_of b k of Some t \<Rightarrow> has_spec r d t | None \<Rightarrow> False"
    using assms(2) unfolding list_all_iff by blast
  then show ?thesis
    by (cases "map_of b k") (simp_all add: item_def)
qed

lemma matches_spec_rows:
  assumes "matches_spec spec b" and "(k, r, d) \<in> set spec" and "0 < r"
  shows "\<exists>rows. item b k = Tensor rows"
  using matches_spec_item [OF assms(1,2)] assms(3) by (rule has_spec_rows)

lemma all_batched_wmt:
  assumes "matches_spec wmt_batch_spec b"
  shows "all_batched (lm_wmt_inputs b)"
proof -
  obtain r1 where 1: "item b ''encoder_words'' = Tensor r1"
    using matches_spec_rows [OF assms, of "''encoder_words''" 2 int32]
    by (auto simp: wmt_batch_spec_def)
  obtain r2 where 2: "item b ''encoder_token_indicators'' = Tensor r2"
    using matches_spec_rows [OF assms, of "''encoder_token_indicators''" 2 float32]
    by (auto simp: wmt_batch_spec_def)
  obtain r3 where 3: "item b ''decoder_words'' = Tensor r3"
    using matches_spec_rows [OF assms, of "''decoder_words''" 2 int32]
    by (auto simp: wmt_batch_spec_def)
  obtain r4 where 4: "item b ''decoder_token_indicators'' = Tensor r4"
    using matches_spec_rows [OF assms, of "''decoder_token_indicators''" 2 float32]
    by (auto simp: wmt_batch_spec_def)
  show ?thesis
    unfolding all_batched_def lm_wmt_inputs_def Let_def 1 2 3 4
    by (simp add: all_but_last_column_def all_but_first_column_def tf_greater_0_def
        tf_zeros_1_def tf_zeros_2_def)
qed

lemma all_batched_captioning:
  assumes "matches_spec coco_batch_spec b"
  shows "all_batched (lm_captioning_inputs b)"
proof -
  obtain r1 where 1: "item b ''image_indicators'' = Tensor r1"
    using matches_spec_rows [OF assms, of "''image_indicators''" 2 float32]
    by (auto simp: coco_batch_spec_def)
  obtain r2 where 2: "item b ''words'' = Tensor r2"
    using matches_spec_rows [OF assms, of "''words''" 2 int32]
    by (auto simp: coco_batch_spec_def)
  obtain r3 where 3: "item b ''token_indicators'' = Tensor r3"
    using matches_spec_rows [OF assms, of "''token_indicators''" 2 float32]
    by (auto simp: coco_batch_spec_def)
  obtain r4 where 4: "item b ''boxes'' = Tensor r4"
    using matches_spec_rows [OF assms, of "''boxes''" 3 float32]
    by (auto simp: coco_batch_spec_def)
  obtain r5 where 5: "item b ''labels'' = Tensor r5"
    using matches_spec_rows [OF assms, of "''labels''" 2 int32]
    by (auto simp: coco_batch_spec_def)
  obtain r6 where 6: "item b ''boxes_features'' = Tensor r6"
    using matches_spec_rows [OF assms, of "''boxes_features''" 3 float32]
    by (auto simp: coco_batch_spec_def)
  show ?thesis
    unfolding all_batched_def lm_captioning_inputs_def Let_def 1 2 3 4 5 6
    by (simp add: all_but_last_column_def all_but_first_column_def tf_greater_0_def
        tf_zeros_1_def)
qed

lemma example_wmt_batch_matches: "matches_spec wmt_batch_spec example_wmt_batch"
  by (simp add: matches_spec_def wmt_batch_spec_def example_wmt_batch_def ints_def floats_def)

lemma example_coco_batch_matches: "matches_spec coco_batch_spec example_coco_batch"
  by (simp add: matches_spec_def coco_batch_spec_def example_coco_batch_def ints_def
      floats_def floats3_def)

lemma each_tensor_repeated_tensor:
  assumes "each_tensor_repeated n ins outs" and "i < length ins" and "ins ! i = PyTensor t"
  shows "outs ! i = PyTensor (tf_repeat t n)"
proof -
  have "\<forall>i < length ins. case ins ! i of
          PyTensor t \<Rightarrow>
            outs ! i = PyTensor (tf_repeat t n) \<and>
            dim0 (tf_repeat t n) = n * dim0 t \<and>
            (\<forall>k < n * dim0 t. rows_of (tf_repeat t n) ! k = rows_of t ! (k div n))
        | v \<Rightarrow> outs ! i = v"
    using assms(1) by (simp add: each_tensor_repeated_def)
  then have "case ins ! i of
          PyTensor t \<Rightarrow>
            outs ! i = PyTensor (tf_repeat t n) \<and>
            dim0 (tf_repeat t n) = n * dim0 t \<and>
            (\<forall>k < n * dim0 t. rows_of (tf_repeat t n) ! k = rows_of t ! (k div n))
        | v \<Rightarrow> outs ! i = v"
    using assms(2) by blast
  then show ?thesis using assms(3) by simp
qed

lemma each_tensor_repeated_none:
  assumes "each_tensor_repeated n ins outs" and "i < length ins" and "ins ! i = PyNone"
  shows "outs ! i = PyNone"
proof -
  have "\<forall>i < length ins. case ins ! i of
          PyTensor t \<Rightarrow>
            outs ! i = PyTensor (tf_repeat t n) \<and>
            dim0 (tf_repeat t n) = n * dim0 t \<and>
            (\<forall>k < n * dim0 t. rows_of (tf_repeat t n) ! k = rows_of t ! (k div n))
        | v \<Rightarrow> outs ! i = v"
    using assms(1) by (simp add: each_tensor_repeated_def)
  then have "case ins ! i of
          PyTensor t \<Rightarrow>
            outs ! i = PyTensor (tf_repeat t n) \<and>
            dim0 (tf_repeat t n) = n * dim0 t \<and>
            (\<forall>k < n * dim0 t. rows_of (tf_repeat t n) ! k = rows_of t ! (k div n))
        | v \<Rightarrow> outs ! i = v"
    using assms(2) by blast
  then show ?thesis using assms(3) by simp
qed

text \<open>
  Claim C9. For every batch that matches the function's input signature,
  \<^verbatim>\<open>prepare_batch_for_lm_wmt\<close> and \<^verbatim>\<open>prepare_batch_for_lm_captioning\<close> with
  \<open>action_refinement = n\<close> return their list with every tensor entry repeated \<open>n\<close> times
  along axis 0 (the batch dimension becomes \<open>n\<close> times the input's) and every other
  entry (the \<^verbatim>\<open>None\<close> placeholders) unchanged.
\<close>

theorem prepare_batch_for_lm_repeats:
  assumes "matches_spec wmt_batch_spec wb" and "matches_spec coco_batch_spec cb"
  shows "(\<exists>outs. prepare_batch_for_lm_wmt n wb = Inr outs \<and>
            each_tensor_repeated n (lm_wmt_inputs wb) outs) \<and>
         (\<exists>outs. prepare_batch_for_lm_captioning n cb = Inr outs \<and>
            each_tensor_repeated n (lm_captioning_inputs cb) outs)"
  using assms
  by (simp add: prepare_batch_for_lm_wmt_def prepare_batch_for_lm_captioning_def
      repeat_tensor_list_map each_tensor_repeated_map all_batched_wmt all_batched_captioning)

theorem prepare_batch_for_lm_repeats_witness:
  "matches_spec wmt_batch_spec example_wmt_batch \<and>
   matches_spec coco_batch_spec example_coco_batch \<and>
   (\<exists>outs. prepare_batch_for_lm_wmt 2 example_wmt_batch = Inr outs \<and>
      each_tensor_repeated 2 (lm_wmt_inputs example_wmt_batch) outs \<and>
      outs ! 1 = PyTensor (ints [[2, 7, 3], [2, 7, 3], [2, 3, 0], [2, 3, 0]]) \<and>
      outs ! 5 = PyNone)"
proof -
  obtain outs where o: "prepare_batch_for_lm_wmt 2 example_wmt_batch = Inr outs"
      "each_tensor_repeated 2 (lm_wmt_inputs example_wmt_batch) outs"
    using prepare_batch_for_lm_repeats
      [OF example_wmt_batch_matches example_coco_batch_matches, of 2]
    by blast
  have 1: "lm_wmt_inputs example_wmt_batch ! 1 = PyTensor (ints [[2, 7, 3], [2, 3, 0]])"
    by (simp add: lm_wmt_inputs_def Let_def item_def example_wmt_batch_def)
  have 5: "lm_wmt_inputs example_wmt_batch ! 5 = PyNone"
    by (simp add: lm_wmt_inputs_def Let_def)
  have len: "length (lm_wmt_inputs example_wmt_batch) = 16"
    by (simp add: lm_wmt_inputs_def Let_def)
  have "outs ! 1 = PyTensor (tf_repeat (ints [[2, 7, 3], [2, 3, 0]]) 2)"
    using o(2) _ 1 by (rule each_tensor_repeated_tensor) (simp add: len)
  moreover have "tf_repeat (ints [[2, 7, 3], [2, 3, 0]]) 2
      = ints [[2, 7, 3], [2, 7, 3], [2, 3, 0], [2, 3, 0]]"
    by (simp add: ints_def numeral_2_eq_2)
  moreover have "outs ! 5 = PyNone"
    using o(2) _ 5 by (rule each_tensor_repeated_none) (simp add: len)
  ultimately show ?thesis
    using o example_wmt_batch_matches example_coco_batch_matches by auto
qed

section \<open>prepare\_permutation (voi/core/inspect\_order.py)\<close>

text \<open>
  The functions of the repository that are not part of the sources at hand
  (\<^verbatim>\<open>voi.permutation_utils\<close>), the permutation model and the TensorFlow operations whose
  arithmetic is not modelled are parameters; each of them may fail.
\<close>

record 'm collaborators =
  get_permutation :: "tensor \<Rightarrow> tensor \<Rightarrow> string \<Rightarrow> py_error + pyval"
  pt_permutation_to_relative_l2r :: "nat \<Rightarrow> nat \<Rightarrow> nat \<Rightarrow> py_error + pyval"
  permutation_to_relative :: "pyval \<Rightarrow> py_error + pyval"
  permutation_to_pointer :: "pyval \<Rightarrow> py_error + pyval \<times> pyval"
  call_model :: "'m \<Rightarrow> pyval list \<Rightarrow> py_error + pyval"
  tf_subtract :: "pyval \<Rightarrow> pyval \<Rightarrow> py_error + pyval"
  tf_stop_gradient :: "pyval \<Rightarrow> py_error + pyval"
  tf_one_hot :: "pyval \<Rightarrow> nat \<Rightarrow> py_error + pyval"
  tf_matmul :: "pyval \<Rightarrow> pyval \<Rightarrow> py_error + pyval"

text \<open>
  \<^verbatim>\<open>prepare_batch_for_pt_captioning\<close> and \<^verbatim>\<open>prepare_batch_for_pt_wmt\<close>: the sixteen
  slots they return differ in the second and fourth slot and in the last three.
  \<open>start_end_or_pad\<close> marks the token ids 0, 2 and 3.
\<close>

definition pt_inputs ::
    "bool \<Rightarrow> nat \<Rightarrow> tensor \<Rightarrow> pyval \<Rightarrow> pyval \<Rightarrow> pyval \<Rightarrow> pyval list \<Rightarrow> pyval list" where
  "pt_inputs pretrain_done action_refinement words values values_mask l2r_relative features =
     [PyTensor words, values,
      PyTensor (elementwise logical_not (elementwise start_end_or_pad words)), values_mask,
      PyTensor (Scalar (BoolS pretrain_done)), PyTensor (Scalar (IntS (int action_refinement))),
      PyNone, l2r_relative, PyNone, PyNone, PyNone, PyNone, PyNone] @ features"

definition prepare_batch_for_pt_captioning ::
    "'m collaborators \<Rightarrow> bool \<Rightarrow> nat \<Rightarrow> batch \<Rightarrow> py_error + pyval list" where
  "prepare_batch_for_pt_captioning env pretrain_done action_refinement batch =
     (if matches_spec coco_batch_spec batch
      then
        (let image_ind = item batch ''image_indicators'';
             boxes_features = item batch ''boxes_features'';
             boxes = item batch ''boxes'';
             detections = item batch ''labels'';
             words = item batch ''words''
         in and_then (pt_permutation_to_relative_l2r env (dim0 words) (dim1 words) 10)
              (\<lambda>l2r_relative.
                 Inr (pt_inputs pretrain_done action_refinement words PyNone
                        (PyTensor (tf_greater_0 image_ind)) l2r_relative
                        [PyTensor detections, PyTensor boxes_features, PyTensor boxes])))
      else Inl IncompatibleInputs)"

definition prepare_batch_for_pt_wmt ::
    "'m collaborators \<Rightarrow> bool \<Rightarrow> nat \<Rightarrow> batch \<Rightarrow> py_error + pyval list" where
  "prepare_batch_for_pt_wmt env pretrain_done action_refinement batch =
     (if matches_spec wmt_batch_spec batch
      then
        (let encoder_words = item batch ''encoder_words'';
             encoder_token_ind = item batch ''encoder_token_indicators'';
             words = item batch ''decoder_words''
         in and_then (pt_permutation_to_relative_l2r env (dim0 words) (dim1 words) 10)
              (\<lambda>l2r_relative.
                 Inr (pt_inputs pretrain_done action_refinement words (PyTensor encoder_words)
                        (PyTensor (tf_greater_0 encoder_token_ind)) l2r_relative
                        [PyNone, PyNone, PyNone])))
      else Inl IncompatibleInputs)"

text \<open>
  The dataset name selects the features to read and the pair of preparation functions.
  With any other name nothing is bound, and the first use of \<^verbatim>\<open>prepare_batch_for_lm\<close>
  raises.
\<close>

datatype dataset_kind = Captioning | Translation

datatype 'm order_arg = Name string | Model 'm

definition select_dataset :: "batch \<Rightarrow> string \<Rightarrow> py_error + tensor \<times> tensor \<times> dataset_kind" where
  "select_dataset batch dataset =
     (if dataset = ''captioning'' then
        and_then (lookup batch ''words'') (\<lambda>words.
        and_then (lookup batch ''token_indicators'') (\<lambda>mask.
        Inr (words, mask, Captioning)))
      else if dataset \<in> set [''wmt'', ''django'', ''gigaword''] then
        and_then (lookup batch ''decoder_words'') (\<lambda>words.
        and_then (lookup batch ''decoder_token_indicators'') (\<lambda>mask.
        Inr (words, mask, Translation)))
      else Inl (UnboundLocalError ''prepare_batch_for_lm''))"

definition prepare_batch_for_lm :: "dataset_kind \<Rightarrow> nat \<Rightarrow> batch \<Rightarrow> py_error + pyval list" where
  "prepare_batch_for_lm kind n batch =
     (case kind of
        Captioning \<Rightarrow> prepare_batch_for_lm_captioning n batch
      | Translation \<Rightarrow> prepare_batch_for_lm_wmt n batch)"

definition prepare_batch_for_pt ::
    "'m collaborators \<Rightarrow> dataset_kind \<Rightarrow> bool \<Rightarrow> nat \<Rightarrow> batch \<Rightarrow> py_error + pyval list" where
  "prepare_batch_for_pt env kind pretrain_done n batch =
     (case kind of
        Captioning \<Rightarrow> prepare_batch_for_pt_captioning env pretrain_done n batch
      | Translation \<Rightarrow> prepare_batch_for_pt_wmt env pretrain_done n batch)"

text \<open>
  \<^verbatim>\<open>a, b, c, d, e = v\<close>: a tuple of five values, or a tensor with five rows.
\<close>

fun unpack5 :: "pyval \<Rightarrow> py_error + pyval \<times> pyval \<times> pyval \<times> pyval \<times> pyval" where
  "unpack5 (PyTuple [a, b, c, d, e]) = Inr (a, b, c, d, e)"
| "unpack5 (PyTuple vs) = Inl ValueError"
| "unpack5 (PyTensor (Tensor [a, b, c, d, e])) =
     Inr (PyTensor a, PyTensor b, PyTensor c, PyTensor d, PyTensor e)"
| "unpack5 (PyTensor (Tensor vs)) = Inl ValueError"
| "unpack5 (PyTensor (Scalar v)) = Inl TypeError"
| "unpack5 PyNone = Inl TypeError"

text \<open>
  The body of \<^verbatim>\<open>prepare_permutation\<close> up to the test of \<^verbatim>\<open>policy_gradient\<close>: the
  dataset, the language-model inputs, a fixed order, a soft order from the permutation
  model, and the searched order \<^verbatim>\<open>'sao'\<close>, whose \<^verbatim>\<open>adaptive_search\<close> this module
  neither defines nor imports.
\<close>

definition before_policy_check ::
    "'m collaborators \<Rightarrow> batch \<Rightarrow> 'm order_arg \<Rightarrow> string \<Rightarrow> string \<Rightarrow> 'd option \<Rightarrow>
     py_error + pyval list \<times> pyval list option" where
  "before_policy_check env batch order dataset policy_gradient decoder =
     and_then (select_dataset batch dataset) (\<lambda>(words, mask, kind).
     and_then (prepare_batch_for_lm kind 1 batch) (\<lambda>inputs.
     and_then
       (case order of
          Name s \<Rightarrow>
            if s \<in> set [''r2l'', ''l2r'', ''rare'', ''common'', ''test'']
            then and_then (get_permutation env mask words s) (\<lambda>p. Inr (inputs[5 := p]))
            else Inr inputs
        | Model m \<Rightarrow> Inr inputs) (\<lambda>inputs.
     and_then
       (case order of
          Model m \<Rightarrow>
            if policy_gradient \<noteq> ''without_bvn''
            then and_then (prepare_batch_for_pt env kind True 1 batch) (\<lambda>pt.
                 and_then (call_model env m pt) (\<lambda>p.
                 Inr (inputs[5 := p], None)))
            else and_then (prepare_batch_for_pt env kind True 1 batch) (\<lambda>permu_inputs.
                 and_then (call_model env m permu_inputs) (\<lambda>out.
                 and_then (unpack5 out) (\<lambda>(p, activations, kl, log_nom, log_denom).
                 and_then (tf_subtract env log_nom log_denom) (\<lambda>difference.
                 Inr (inputs[5 := p],
                      Some (permu_inputs[10 := activations, 11 := kl, 12 := difference]))))))
        | Name s \<Rightarrow> Inr (inputs, None)) (\<lambda>(inputs, permu_inputs).
     if order = Name ''sao'' \<and> decoder \<noteq> None
     then Inl (NameError ''adaptive_search'')
     else Inr (inputs, permu_inputs)))))"

text \<open>
  After the test: \<^verbatim>\<open>p[:, :-1, :-1]\<close> and \<^verbatim>\<open>p[:, 1:, 1:]\<close>, \<^verbatim>\<open>p[:, tf.newaxis, :, :]\<close>,
  \<^verbatim>\<open>tf.squeeze(t, axis=1)\<close>, and the slots 6 to 10.
\<close>

fun rank_at_least :: "nat \<Rightarrow> tensor \<Rightarrow> bool" where
  "rank_at_least r (Scalar v) = (r = 0)"
| "rank_at_least r (Tensor xs) = (r \<le> 1 \<or> list_all (rank_at_least (r - 1)) xs)"

definition slice_rows_and_columns ::
    "(tensor list \<Rightarrow> tensor list) \<Rightarrow> pyval \<Rightarrow> py_error + pyval" where
  "slice_rows_and_columns f v =
     (case v of
        PyTensor t \<Rightarrow>
          if rank_at_least 3 t
          then Inr (PyTensor (inner (map (inner (\<lambda>rows. map (inner f) (f rows)))) t))
          else Inl ValueError
      | _ \<Rightarrow> Inl TypeError)"

definition new_axis_1 :: "pyval \<Rightarrow> py_error + pyval" where
  "new_axis_1 v =
     (case v of
        PyTensor t \<Rightarrow>
          if rank_at_least 3 t
          then Inr (PyTensor (inner (map (\<lambda>m. Tensor [m])) t))
          else Inl ValueError
      | _ \<Rightarrow> Inl TypeError)"

fun only_element :: "tensor \<Rightarrow> tensor option" where
  "only_element (Tensor [x]) = Some x"
| "only_element t = None"

definition tf_squeeze_1 :: "pyval \<Rightarrow> py_error + pyval" where
  "tf_squeeze_1 v =
     (case v of
        PyTensor (Tensor ms) \<Rightarrow>
          if list_all (\<lambda>m. only_element m \<noteq> None) ms
          then Inr (PyTensor (Tensor (map (\<lambda>m. the (only_element m)) ms)))
          else Inl ValueError
      | _ \<Rightarrow> Inl ValueError)"

definition positions_and_labels ::
    "'m collaborators \<Rightarrow> nat \<Rightarrow> pyval list \<Rightarrow> py_error + pyval list" where
  "positions_and_labels env tgt_vocab_size inputs =
     and_then (slice_rows_and_columns butlast (inputs ! 5)) (\<lambda>absolute.
     and_then (permutation_to_relative env (inputs ! 5)) (\<lambda>relative.
     and_then (new_axis_1 (inputs ! 5)) (\<lambda>expanded.
     and_then (permutation_to_pointer env expanded) (\<lambda>(hard_pointer_labels, partial_pos).
     and_then (tf_squeeze_1 hard_pointer_labels) (\<lambda>labels.
     and_then (slice_rows_and_columns tl (inputs ! 5)) (\<lambda>inner_permutation.
     and_then (tf_one_hot env (inputs ! 4) tgt_vocab_size) (\<lambda>ids.
     and_then (tf_matmul env inner_permutation ids) (\<lambda>logits_labels.
     Inr (inputs[6 := absolute, 7 := relative, 10 := partial_pos,
                 8 := labels, 9 := logits_labels])))))))))"

definition prepare_permutation ::
    "'m collaborators \<Rightarrow> batch \<Rightarrow> nat \<Rightarrow> 'm order_arg \<Rightarrow> string \<Rightarrow> string \<Rightarrow> 'd option \<Rightarrow>
     py_error + pyval list \<times> pyval list option" where
  "prepare_permutation env batch tgt_vocab_size order dataset policy_gradient decoder =
     and_then (before_policy_check env batch order dataset policy_gradient decoder)
       (\<lambda>(inputs, permu_inputs).
     if policy_gradient = ''with_bvn'' then Inl NotImplementedError
     else
       and_then
         (if policy_gradient = ''without_bvn''
          then and_then (tf_stop_gradient env (inputs ! 5)) (\<lambda>p. Inr (inputs[5 := p]))
          else Inr inputs) (\<lambda>inputs.
       and_then (positions_and_labels env tgt_vocab_size inputs) (\<lambda>inputs.
       Inr (inputs, permu_inputs))))"

text \<open>
  Collaborators that always return, for the examples.
\<close>

definition quiet :: "unit collaborators" where
  "quiet = \<lparr> get_permutation = (\<lambda>mask words order. Inr (PyTensor words)),
     pt_permutation_to_relative_l2r = (\<lambda>b n k. Inr PyNone),
     permutation_to_relative = (\<lambda>p. Inr p),
     permutation_to_pointer = (\<lambda>p. Inr (p, p)),
     call_model = (\<lambda>m xs. Inr PyNone),
     tf_subtract = (\<lambda>a b. Inr a),
     tf_stop_gradient = (\<lambda>p. Inr p),
     tf_one_hot = (\<lambda>p n. Inr p),
     tf_matmul = (\<lambda>a b. Inr a) \<rparr>"

lemma example_before_policy_check:
  "\<exists>s. before_policy_check quiet example_wmt_batch (Name ''l2r'') ''wmt'' ''with_bvn''
        (None :: unit option) = Inr s"
proof -
  have "select_dataset example_wmt_batch ''wmt'' =
      Inr (item example_wmt_batch ''decoder_words'',
           item example_wmt_batch ''decoder_token_indicators'', Translation)"
    by (simp add: select_dataset_def lookup_def item_def example_wmt_batch_def and_then_def)
  moreover have "\<exists>inputs. prepare_batch_for_lm Translation 1 example_wmt_batch = Inr inputs"
    by (simp add: prepare_batch_for_lm_def prepare_batch_for_lm_wmt_def
        example_wmt_batch_matches)
  ultimately show ?thesis
    by (auto simp: before_policy_check_def and_then_def quiet_def)
qed

text \<open>
  Claim C5, as the code has it. Called with \<^verbatim>\<open>policy_gradient = 'with_bvn'\<close>,
  \<^verbatim>\<open>prepare_permutation\<close> never returns a result, whatever the batch and the other
  arguments: it raises \<^verbatim>\<open>NotImplementedError\<close> whenever the steps before the test of
  \<^verbatim>\<open>policy_gradient\<close> complete, and otherwise the exception of the earlier step.
\<close>

theorem prepare_permutation_with_bvn:
  "(\<exists>e. prepare_permutation env batch tgt_vocab_size order dataset ''with_bvn'' decoder = Inl e) \<and>
   (\<forall>s. before_policy_check env batch order dataset ''with_bvn'' decoder = Inr s \<longrightarrow>
      prepare_permutation env batch tgt_vocab_size order dataset ''with_bvn'' decoder
        = Inl NotImplementedError) \<and>
   (\<forall>e. before_policy_check env batch order dataset ''with_bvn'' decoder = Inl e \<longrightarrow>
      prepare_permutation env batch tgt_vocab_size order dataset ''with_bvn'' decoder = Inl e)"
  by (cases "before_policy_check env batch order dataset ''with_bvn'' decoder")
     (auto simp: prepare_permutation_def and_then_def)

theorem prepare_permutation_with_bvn_witness:
  "(\<exists>s. before_policy_check quiet example_wmt_batch (Name ''l2r'') ''wmt'' ''with_bvn''
        (None :: unit option) = Inr s) \<and>
   prepare_permutation quiet example_wmt_batch 10 (Name ''l2r'') ''wmt'' ''with_bvn''
        (None :: unit option) = Inl NotImplementedError"
  using example_before_policy_check
    prepare_permutation_with_bvn [of quiet example_wmt_batch 10 "Name ''l2r''" "''wmt''"
      "None :: unit option"]
  by blast

text \<open>
  The exception is not always \<^verbatim>\<open>NotImplementedError\<close>: a batch of the translation
  layout passed with the dataset \<^verbatim>\<open>'captioning'\<close> raises \<^verbatim>\<open>KeyError\<close> at
  \<^verbatim>\<open>batch['words']\<close>, before the test is reached.
\<close>

theorem prepare_permutation_with_bvn_counterexample:
  "prepare_permutation quiet example_wmt_batch 10 (Name ''l2r'') ''captioning'' ''with_bvn''
        (None :: unit option) = Inl (KeyError ''words'') \<and>
   prepare_permutation quiet example_wmt_batch 10 (Name ''l2r'') ''captioning'' ''with_bvn''
        (None :: unit option) \<noteq> Inl NotImplementedError"
proof -
  have "select_dataset example_wmt_batch ''captioning'' = Inl (KeyError ''words'')"
    by (simp add: select_dataset_def lookup_def example_wmt_batch_def and_then_def)
  then show ?thesis
    by (simp add: prepare_permutation_def before_policy_check_def and_then_def)
qed

section \<open>Vocabulary and encoded sentences (voi/process/captions\_wmt.py)\<close>

text \<open>
  Strings are lists of characters. \<^verbatim>\<open>str.strip()\<close> removes the white space at both
  ends (the ASCII white-space characters), \<^verbatim>\<open>str.split(' ')\<close> cuts at every single
  space, \<^verbatim>\<open>"\n".join\<close> puts a line feed between the words, and \<^verbatim>\<open>readlines\<close>
  cuts a file at its line feeds.
\<close>

definition newline :: char where
  "newline = CHR 0x0A"

definition whitespace :: "char \<Rightarrow> bool" where
  "whitespace c \<longleftrightarrow>
     c \<in> set [CHR 0x20, CHR 0x09, CHR 0x0A, CHR 0x0B, CHR 0x0C, CHR 0x0D,
               CHR 0x1C, CHR 0x1D, CHR 0x1E, CHR 0x1F]"

definition strip :: "string \<Rightarrow> string" where
  "strip s = rev (dropWhile whitespace (rev (dropWhile whitespace s)))"

fun split_on :: "char \<Rightarrow> string \<Rightarrow> string list" where
  "split_on sep [] = [[]]"
| "split_on sep (c # cs) =
     (if c = sep then [] # split_on sep cs
      else (case split_on sep cs of
              w # ws \<Rightarrow> (c # w) # ws
            | [] \<Rightarrow> [[c]]))"

fun join_with :: "string \<Rightarrow> string list \<Rightarrow> string" where
  "join_with sep [] = []"
| "join_with sep [w] = w"
| "join_with sep (w # v # ws) = w @ sep @ join_with sep (v # ws)"

definition readlines :: "string \<Rightarrow> string list" where
  "readlines content =
     (let pieces = split_on newline content
      in if last pieces = [] then butlast pieces else pieces)"

text \<open>
  A \<^verbatim>\<open>defaultdict(int)\<close> of word counts, in insertion order: \<^verbatim>\<open>freq[w] += 1\<close> adds
  one to the count of a word already there and appends a new word with count one.
\<close>

type_synonym counts = "(string \<times> int) list"







text \<open>
  \<^verbatim>\<open>Vocabulary(vocab, unknown_word, unknown_id)\<close>: the class is not part of the sources
  at hand; the record keeps the arguments of its constructor. The file system is a map
  from paths to file contents.
\<close>

record vocabulary =
  words :: "string list"
  unknown_word :: string
  unknown_id :: int

definition Vocabulary :: "string list \<Rightarrow> string \<Rightarrow> int \<Rightarrow> vocabulary" where
  "Vocabulary vocab unk unk_id = \<lparr> words = vocab, unknown_word = unk, unknown_id = unk_id \<rparr>"

type_synonym files = "string \<Rightarrow> string option"

definition reserved_tokens :: "string list" where
  "reserved_tokens = [''<pad>'', ''<unk>'', ''<start>'', ''<end>'']"

text \<open>
  \<^verbatim>\<open>for split, frequency in enumerate(sorted_freq): if frequency < min_word_frequency: break\<close>
  with \<^verbatim>\<open>split = 0\<close> before the loop: \<open>split\<close> is the variable's value so far and
  \<open>i\<close> the index of the next element.
\<close>

fun split_loop :: "int \<Rightarrow> nat \<Rightarrow> nat \<Rightarrow> int list \<Rightarrow> nat" where
  "split_loop min_word_frequency split i [] = split"
| "split_loop min_word_frequency split i (frequency # rest) =
     (if frequency < min_word_frequency then i
      else split_loop min_word_frequency i (Suc i) rest)"

text \<open>
  \<^verbatim>\<open>sorted(freq.items(), key=lambda x: x[1], reverse=True)\<close>: Python's sort is stable
  also when reversed, so it is the stable sort by the negated count.
\<close>

definition sorted_items :: "counts \<Rightarrow> counts" where
  "sorted_items fr = sort_key (\<lambda>x. - snd x) fr"

definition chosen_vocab :: "counts \<Rightarrow> int \<Rightarrow> string list" where
  "chosen_vocab fr min_word_frequency =
     (let sorted_w = map fst (sorted_items fr);
          sorted_freq = map snd (sorted_items fr);
          split = split_loop min_word_frequency 0 0 sorted_freq
      in reserved_tokens @ take (split + 1) sorted_w)"

text \<open>
  \<^verbatim>\<open>create_vocab_file(freq, min_word_frequency, vocab_file)\<close>, a closure over
  \<^verbatim>\<open>dataset_type\<close>. Unpacking \<^verbatim>\<open>zip(*sorted(...))\<close> into two names raises
  \<^verbatim>\<open>ValueError\<close> when the table of counts is empty.
\<close>

definition create_vocab_file ::
    "string \<Rightarrow> counts \<Rightarrow> int \<Rightarrow> string \<Rightarrow> files \<Rightarrow> py_error + files \<times> vocabulary" where
  "create_vocab_file dataset_type fr min_word_frequency vocab_file fs =
     (if fs vocab_file = None \<or> dataset_type = ''train''
      then
        if fr = [] then Inl ValueError
        else
          (let vocab = chosen_vocab fr min_word_frequency
           in case fs vocab_file of
                None \<Rightarrow>
                  Inr (fs(vocab_file \<mapsto> join_with [newline] vocab),
                       Vocabulary vocab ''<unk>'' 1)
              | Some content \<Rightarrow>
                  (let old_vocab = map strip (readlines content);
                       new_vocab = filter (\<lambda>v. v \<notin> set old_vocab) vocab;
                       vocab = old_vocab @ new_vocab
                   in Inr (fs(vocab_file \<mapsto>
                             join_with [newline] old_vocab @ [newline] @
                             join_with [newline] new_vocab),
                           Vocabulary vocab ''<unk>'' 1)))
      else
        (case fs vocab_file of
           Some content \<Rightarrow> Inr (fs, Vocabulary (map strip (readlines content)) ''<unk>'' 1)
         | None \<Rightarrow> Inl NotFoundError))"









definition example_counts :: counts where
  "example_counts = [(''a'', 1), (''b'', 3), (''c'', 1), (''d'', 3)]"

text \<open>
  A word is below the threshold when its count is strictly smaller.
\<close>

definition below :: "int \<Rightarrow> string \<times> int \<Rightarrow> bool" where
  "below min_word_frequency x \<longleftrightarrow> snd x < min_word_frequency"

definition split_of :: "counts \<Rightarrow> int \<Rightarrow> nat" where
  "split_of fr min_word_frequency =
     split_loop min_word_frequency 0 0 (map snd (sorted_items fr))"


subsection \<open>Where the vocabulary is cut\<close>

lemma split_loop_first_below:
  assumes "\<exists>f \<in> set fs. f < m"
  shows "i \<le> split_loop m s i fs \<and> split_loop m s i fs - i < length fs \<and>
         fs ! (split_loop m s i fs - i) < m \<and>
         (\<forall>j < split_loop m s i fs - i. m \<le> fs ! j)"
  using assms
proof (induction fs arbitrary: s i)
  case Nil
  then show ?case by simp
next
  case (Cons f fs)
  show ?case
  proof (cases "f < m")
    case True
    then show ?thesis by simp
  next
    case False
    then have ex: "\<exists>f \<in> set fs. f < m" using Cons.prems by auto
    let ?k = "split_loop m i (Suc i) fs"
    have ih: "Suc i \<le> ?k" "?k - Suc i < length fs" "fs ! (?k - Suc i) < m"
      "\<forall>j < ?k - Suc i. m \<le> fs ! j"
      using Cons.IH [OF ex, where s = i and i = "Suc i"] by auto
    have k: "split_loop m s i (f # fs) = ?k" using False by simp
    have d: "?k - i = Suc (?k - Suc i)" using ih(1) by simp
    have "\<forall>j < ?k - i. m \<le> (f # fs) ! j"
    proof (intro allI impI)
      fix j assume "j < ?k - i"
      then show "m \<le> (f # fs) ! j"
        using False ih(4) d by (cases j) auto
    qed
    then show ?thesis
      unfolding k using ih d by simp
  qed
qed

lemma split_loop_none_below:
  assumes "\<forall>f \<in> set fs. m \<le> f" and "fs \<noteq> []"
  shows "split_loop m s i fs = i + length fs - 1"
  using assms
proof (induction fs arbitrary: s i)
  case Nil
  then show ?case by simp
next
  case (Cons f fs)
  show ?case
  proof (cases "fs = []")
    case True
    then show ?thesis using Cons.prems by simp
  next
    case False
    then have "split_loop m i (Suc i) fs = Suc i + length fs - 1"
      using Cons.prems by (intro Cons.IH) auto
    then show ?thesis using Cons.prems False by simp
  qed
qed

lemma sorted_items_descending:
  "sorted_wrt (\<lambda>a b. b \<le> a) (map snd (sorted_items fr))"
proof -
  have "sorted (map (\<lambda>x. - snd x) (sorted_items fr))"
    unfolding sorted_items_def by (rule sorted_sort_key)
  then have "sorted_wrt (\<lambda>a b. - snd a \<le> - snd b) (sorted_items fr)"
    by (simp add: sorted_wrt_map)
  then show ?thesis
    by (simp add: sorted_wrt_map)
qed

lemma sorted_items_mset: "mset (sorted_items fr) = mset fr"
  by (simp add: sorted_items_def)

lemma sorted_items_stable:
  "filter (\<lambda>x. snd x = k) (sorted_items fr) = filter (\<lambda>x. snd x = k) fr"
proof -
  have "filter (\<lambda>x. - snd x = - k) (sort_key (\<lambda>x. - snd x) fr)
      = filter (\<lambda>x. - snd x = - k) fr"
    by (rule sort_key_stable)
  then show ?thesis by (simp add: sorted_items_def)
qed

lemma length_sorted_items: "length (sorted_items fr) = length fr"
  by (simp add: sorted_items_def)

lemma sorted_items_Nil: "sorted_items fr = [] \<longleftrightarrow> fr = []"
  using length_sorted_items [of fr] by (metis length_0_conv)

lemma chosen_vocab_split:
  "chosen_vocab fr m = reserved_tokens @ take (split_of fr m + 1) (map fst (sorted_items fr))"
  by (simp add: chosen_vocab_def split_of_def Let_def)

lemma split_of_first_below:
  assumes "\<exists>x \<in> set fr. below m x"
  shows "split_of fr m < length fr"
    and "below m (sorted_items fr ! split_of fr m)"
    and "\<forall>j < split_of fr m. \<not> below m (sorted_items fr ! j)"
proof -
  let ?fs = "map snd (sorted_items fr)"
  have "set (sorted_items fr) = set fr"
    by (simp add: sorted_items_def)
  then have "\<exists>f \<in> set ?fs. f < m"
    using assms by (auto simp: below_def)
  from split_loop_first_below [OF this, where s = 0 and i = 0]
  have k: "split_of fr m < length (sorted_items fr)"
    and b: "?fs ! split_of fr m < m"
    and a: "\<forall>j < split_of fr m. m \<le> ?fs ! j"
    by (auto simp: split_of_def)
  show "split_of fr m < length fr"
    using k by (simp add: length_sorted_items)
  show "below m (sorted_items fr ! split_of fr m)"
    using b nth_map [OF k, of snd] by (simp add: below_def)
  show "\<forall>j < split_of fr m. \<not> below m (sorted_items fr ! j)"
  proof (intro allI impI)
    fix j assume j: "j < split_of fr m"
    then have "m \<le> ?fs ! j" using a by blast
    moreover have "j < length (sorted_items fr)" using j k by simp
    ultimately show "\<not> below m (sorted_items fr ! j)"
      by (simp add: below_def)
  qed
qed

lemma one_below_in_prefix:
  assumes "k < length xs" and "P (xs ! k)" and "\<forall>j < k. \<not> P (xs ! j)"
  shows "length (filter P (take (k + 1) xs)) = 1"
proof -
  have "\<forall>x \<in> set (take k xs). \<not> P x"
  proof
    fix x assume "x \<in> set (take k xs)"
    then obtain j where "j < k" "x = xs ! j"
      using assms(1) by (auto simp: in_set_conv_nth)
    then show "\<not> P x" using assms(3) by blast
  qed
  then have "filter P (take k xs) = []"
    by (simp add: filter_empty_conv)
  moreover have "take (k + 1) xs = take k xs @ [xs ! k]"
    using assms(1) by (simp add: take_Suc_conv_app_nth)
  ultimately show ?thesis using assms(2) by simp
qed

lemma split_of_none_below:
  assumes "\<forall>x \<in> set fr. \<not> below m x" and "fr \<noteq> []"
  shows "take (split_of fr m + 1) (sorted_items fr) = sorted_items fr"
proof -
  let ?fs = "map snd (sorted_items fr)"
  have "set (sorted_items fr) = set fr"
    by (simp add: sorted_items_def)
  then have all: "\<forall>f \<in> set ?fs. m \<le> f"
    using assms(1) by (auto simp: below_def)
  have ne: "?fs \<noteq> []"
    using assms(2) by (simp add: sorted_items_Nil)
  have "split_of fr m = length ?fs - 1"
    using split_loop_none_below [OF all ne, of 0 0] by (simp add: split_of_def)
  moreover have "0 < length ?fs" using ne by simp
  ultimately show ?thesis by simp
qed

lemma example_sorted_items:
  "sorted_items example_counts = [(''b'', 3), (''d'', 3), (''a'', 1), (''c'', 1)]"
  by (simp add: sorted_items_def example_counts_def)

lemma create_vocab_file_empty:
  "fs vocab_file = None \<Longrightarrow>
   create_vocab_file dataset_type [] min_word_frequency vocab_file fs = Inl ValueError"
  by (simp add: create_vocab_file_def)

text \<open>
  Claim C10, for a table with at least one word. When the vocabulary file does not exist
  yet, \<^verbatim>\<open>create_vocab_file\<close> writes the four reserved tokens followed by the first
  \<open>split + 1\<close> words in order of decreasing count (a stable sort of the table). When some
  word is below \<^verbatim>\<open>min_word_frequency\<close>, \<open>split\<close> is the index of the first such word, and
  the words written contain exactly one word below the threshold; when no word is
  below it, all words are written.
\<close>

theorem create_vocab_file_new:
  assumes "fs vocab_file = None" and "fr \<noteq> []"
  shows "\<exists>split vocab.
     vocab = reserved_tokens @ take (split + 1) (map fst (sorted_items fr)) \<and>
     create_vocab_file dataset_type fr min_word_frequency vocab_file fs =
       Inr (fs(vocab_file \<mapsto> join_with [newline] vocab), Vocabulary vocab ''<unk>'' 1) \<and>
     sorted_wrt (\<lambda>a b. b \<le> a) (map snd (sorted_items fr)) \<and>
     mset (sorted_items fr) = mset fr \<and>
     ((\<exists>x \<in> set fr. below min_word_frequency x) \<longrightarrow>
        split < length fr \<and>
        below min_word_frequency (sorted_items fr ! split) \<and>
        (\<forall>j < split. \<not> below min_word_frequency (sorted_items fr ! j)) \<and>
        length (filter (below min_word_frequency) (take (split + 1) (sorted_items fr))) = 1) \<and>
     ((\<forall>x \<in> set fr. \<not> below min_word_frequency x) \<longrightarrow>
        take (split + 1) (sorted_items fr) = sorted_items fr)"
proof (intro exI conjI impI)
  let ?k = "split_of fr min_word_frequency"
  let ?vocab = "reserved_tokens @ take (?k + 1) (map fst (sorted_items fr))"
  show "?vocab = reserved_tokens @ take (?k + 1) (map fst (sorted_items fr))" ..
  show "create_vocab_file dataset_type fr min_word_frequency vocab_file fs =
       Inr (fs(vocab_file \<mapsto> join_with [newline] ?vocab), Vocabulary ?vocab ''<unk>'' 1)"
    using assms by (simp add: create_vocab_file_def chosen_vocab_split Let_def)
  show "sorted_wrt (\<lambda>a b. b \<le> a) (map snd (sorted_items fr))"
    by (rule sorted_items_descending)
  show "mset (sorted_items fr) = mset fr"
    by (rule sorted_items_mset)
  {
    assume ex: "\<exists>x \<in> set fr. below min_word_frequency x"
    show "?k < length fr"
      by (rule split_of_first_below(1) [OF ex])
    show "below min_word_frequency (sorted_items fr ! ?k)"
      by (rule split_of_first_below(2) [OF ex])
    show "\<forall>j < ?k. \<not> below min_word_frequency (sorted_items fr ! j)"
      by (rule split_of_first_below(3) [OF ex])
    show "length (filter (below min_word_frequency) (take (?k + 1) (sorted_items fr))) = 1"
      using split_of_first_below [OF ex]
      by (intro one_below_in_prefix) (simp_all add: length_sorted_items)
  }
  {
    assume "\<forall>x \<in> set fr. \<not> below min_word_frequency x"
    then show "take (?k + 1) (sorted_items fr) = sorted_items fr"
      using assms(2) by (rule split_of_none_below)
  }
qed

theorem create_vocab_file_new_witness:
  "(Map.empty :: files) ''vocab.txt'' = None \<and> example_counts \<noteq> [] \<and>
   (\<exists>x \<in> set example_counts. below 2 x) \<and>
   sorted_items example_counts = [(''b'', 3), (''d'', 3), (''a'', 1), (''c'', 1)] \<and>
   (\<exists>split vocab.
      vocab = reserved_tokens @ take (split + 1) (map fst (sorted_items example_counts)) \<and>
      create_vocab_file ''train'' example_counts 2 ''vocab.txt'' Map.empty =
        Inr ([''vocab.txt'' \<mapsto> join_with [newline] vocab], Vocabulary vocab ''<unk>'' 1) \<and>
      length (filter (below 2) (take (split + 1) (sorted_items example_counts))) = 1)"
proof -
  have e: "\<exists>x \<in> set example_counts. below 2 x"
    by (simp add: example_counts_def below_def)
  have n: "example_counts \<noteq> []"
    by (simp add: example_counts_def)
  have f: "(Map.empty :: files) ''vocab.txt'' = None"
    by simp
  obtain split vocab where
    "vocab = reserved_tokens @ take (split + 1) (map fst (sorted_items example_counts))"
    "create_vocab_file ''train'' example_counts 2 ''vocab.txt'' Map.empty =
        Inr ([''vocab.txt'' \<mapsto> join_with [newline] vocab], Vocabulary vocab ''<unk>'' 1)"
    "(\<exists>x \<in> set example_counts. below 2 x) \<longrightarrow>
        split < length example_counts \<and>
        below 2 (sorted_items example_counts ! split) \<and>
        (\<forall>j < split. \<not> below 2 (sorted_items example_counts ! j)) \<and>
        length (filter (below 2) (take (split + 1) (sorted_items example_counts))) = 1"
    using create_vocab_file_new [OF f n, of "''train''" 2] by blast
  then show ?thesis
    using e n f example_sorted_items by blast
qed

text \<open>
  With no word at all the function writes nothing: unpacking the sorted table raises
  \<^verbatim>\<open>ValueError\<close>.
\<close>

theorem create_vocab_file_new_counterexample:
  "(Map.empty :: files) ''vocab.txt'' = None \<and>
   create_vocab_file ''train'' [] 2 ''vocab.txt'' Map.empty = Inl ValueError"
  by (simp add: create_vocab_file_def)

subsection \<open>Reserved ids\<close>












section \<open>Generation orders: permutation matrices and relative positions\<close>




















subsection \<open>A hard permutation matrix is a bijection from steps to positions\<close>
















subsection \<open>The decoding counts the steps ordered before\<close>















section \<open>The validity mask of the permutation layer (voi/nn/layers/permutation\_layer.py)\<close>

















end
